theory Spec2Isabelle
  imports Complex_Main "HOL-Library.Word"
begin

section \<open>Python values and exceptions\<close>

text \<open>
  The host (\<^verbatim>\<open>pyviewer.server.py\<close>) and the viewer (\<^verbatim>\<open>pyviewer_client.py\<close>) are Python
  programs. An exception is a value of \<open>py_error\<close>; a computation that may raise has the
  type \<open>py_error + 'a\<close>, with \<open>Inl\<close> for the exception. Python's \<^verbatim>\<open>int\<close> is \<open>int\<close>;
  Python's \<^verbatim>\<open>float\<close> is modelled by exact rational arithmetic (\<open>rat\<close>): rounding,
  infinities and NaN of IEEE doubles are not represented.
\<close>

datatype py_error =
    KeyError | TypeError | ValueError | AttributeError | ZeroDivisionError
  | StructError | UnicodeDecodeError | JSONDecodeError | OSError

definition py_then :: "py_error + 'a \<Rightarrow> ('a \<Rightarrow> py_error + 'b) \<Rightarrow> py_error + 'b" where
  "py_then r f = (case r of Inl e \<Rightarrow> Inl e | Inr v \<Rightarrow> f v)"









text \<open>
  \<^verbatim>\<open>int(s)\<close> of a string: optional surrounding whitespace, an optional sign, decimal
  digits with single underscores between them. The model reads ASCII only.
\<close>

definition is_space :: "char \<Rightarrow> bool" where
  "is_space c = (of_char c \<in> {9, 10, 11, 12, 13, 28, 29, 30, 31, 32 :: nat})"

definition is_digit :: "char \<Rightarrow> bool" where
  "is_digit c = (48 \<le> (of_char c :: nat) \<and> (of_char c :: nat) \<le> 57)"

definition digit_val :: "char \<Rightarrow> nat" where
  "digit_val c = of_char c - 48"

fun digits_val :: "nat \<Rightarrow> bool \<Rightarrow> string \<Rightarrow> nat option" where
  "digits_val acc after_digit [] = (if after_digit then Some acc else None)"
| "digits_val acc after_digit (c # cs) =
     (if is_digit c then digits_val (10 * acc + digit_val c) True cs
      else if c = CHR ''_'' \<and> after_digit \<and> cs \<noteq> [] \<and> is_digit (hd cs)
        then digits_val acc False cs
      else None)"

definition strip :: "string \<Rightarrow> string" where
  "strip s = rev (dropWhile is_space (rev (dropWhile is_space s)))"

definition int_of_str :: "string \<Rightarrow> py_error + int" where
  "int_of_str s =
     (case strip s of
        [] \<Rightarrow> Inl ValueError
      | c # cs \<Rightarrow>
          (if c = CHR ''-'' then
             (case digits_val 0 False cs of None \<Rightarrow> Inl ValueError | Some n \<Rightarrow> Inr (- int n))
           else if c = CHR ''+'' then
             (case digits_val 0 False cs of None \<Rightarrow> Inl ValueError | Some n \<Rightarrow> Inr (int n))
           else
             (case digits_val 0 False (c # cs) of None \<Rightarrow> Inl ValueError | Some n \<Rightarrow> Inr (int n))))"


section \<open>Coordinate mapping of pointer events\<close>

text \<open>
  \<^verbatim>\<open>self.monitor_dims\<close>: the dictionary \<^verbatim>\<open>{'left', 'top', 'width', 'height'}\<close> resolved in
  \<^verbatim>\<open>RemoteDesktopServer.__init__\<close> (the field named \<^verbatim>\<open>top\<close> is \<open>mon_top\<close> here, and
  the others are prefixed alike).
\<close>

record monitor_dims =
  mon_left :: int
  mon_top :: int
  mon_width :: int
  mon_height :: int








section \<open>Bytes on the video connection\<close>

type_synonym byte = "8 word"

text \<open>
  \<^verbatim>\<open>struct.pack('>I', n)\<close>: four bytes, the most significant first, for
  \<open>0 \<le> n < 2 ^ 32\<close>, and \<^verbatim>\<open>struct.error\<close> for any other \<open>n\<close>.
  \<^verbatim>\<open>struct.unpack('>I', b)[0]\<close> reads four bytes back.
\<close>

definition pack_be32 :: "nat \<Rightarrow> py_error + byte list" where
  "pack_be32 n =
     (if n < 2 ^ 32
      then Inr [of_nat (n div 2 ^ 24 mod 256), of_nat (n div 2 ^ 16 mod 256),
                of_nat (n div 2 ^ 8 mod 256), of_nat (n mod 256)]
      else Inl StructError)"

definition unpack_be32 :: "byte list \<Rightarrow> py_error + nat" where
  "unpack_be32 b =
     (case b of
        [b3, b2, b1, b0] \<Rightarrow> Inr (unat b3 * 2 ^ 24 + unat b2 * 2 ^ 16 + unat b1 * 2 ^ 8 + unat b0)
      | _ \<Rightarrow> Inl StructError)"

text \<open>
  The sending end of a connection: the bytes written to it so far, whether it has been
  shut down or closed on this side (and how often each call was made), and whether the
  connection is broken, so that a write raises. \<^verbatim>\<open>sendall\<close> appends its bytes, or raises
  \<^verbatim>\<open>OSError\<close> (of which \<^verbatim>\<open>BrokenPipeError\<close> and \<^verbatim>\<open>ConnectionResetError\<close> are
  subclasses).
\<close>

record socket_state =
  wire :: "byte list"
  broken :: bool
  shutdown_calls :: nat
  close_calls :: nat

definition usable :: "socket_state \<Rightarrow> bool" where
  "usable c = (\<not> broken c \<and> shutdown_calls c = 0 \<and> close_calls c = 0)"

definition sendall :: "socket_state \<Rightarrow> byte list \<Rightarrow> py_error + socket_state" where
  "sendall c data = (if usable c then Inr (c\<lparr>wire := wire c @ data\<rparr>) else Inl OSError)"

text \<open>
  The two writes of one frame in the legacy video loops (\<^verbatim>\<open>stream_screen_x11\<close> and
  \<^verbatim>\<open>stream_screen_wayland\<close>):
  \<^verbatim>\<open>sendall(struct.pack('>I', len(img_bytes)))\<close>, then \<^verbatim>\<open>sendall(img_bytes)\<close>.
\<close>

definition send_frame :: "socket_state \<Rightarrow> byte list \<Rightarrow> py_error + socket_state" where
  "send_frame c img_bytes =
     py_then (pack_be32 (length img_bytes)) (\<lambda>header.
     py_then (sendall c header) (\<lambda>c1.
       sendall c1 img_bytes))"

text \<open>
  The receiving end: what is still to arrive, as the segments in which \<^verbatim>\<open>recv\<close> will see
  it. \<^verbatim>\<open>recv(n)\<close> returns at most \<open>n\<close> bytes of the first segment; with nothing left the
  peer has closed and it returns \<^verbatim>\<open>b''\<close>; \<open>Recv_error\<close> is a \<^verbatim>\<open>recv\<close> that raises
  \<^verbatim>\<open>OSError\<close>.
\<close>

datatype segment = Data "byte list" | Recv_error

fun recv :: "segment list \<Rightarrow> nat \<Rightarrow> (py_error + byte list) \<times> segment list" where
  "recv [] n = (Inr [], [])"
| "recv (Recv_error # segs) n = (Inl OSError, segs)"
| "recv (Data seg # segs) n =
     (Inr (take n seg), if length seg \<le> n then segs else Data (drop n seg) # segs)"

text \<open>
  The viewer's \<^verbatim>\<open>_recv_all(sock, n)\<close> (the host's \<^verbatim>\<open>recv_all\<close> is the same loop), with
  the bytes collected so far as \<open>data\<close>: \<open>None\<close> when the peer closes or \<^verbatim>\<open>recv\<close>
  raises before \<open>n\<close> bytes are there.
\<close>

function recv_all_loop :: "segment list \<Rightarrow> nat \<Rightarrow> byte list \<Rightarrow> byte list option \<times> segment list" where
  "recv_all_loop sock n data =
     (if length data < n then
        (case recv sock (n - length data) of
           (Inl e, sock') \<Rightarrow> (None, sock')
         | (Inr packet, sock') \<Rightarrow>
             if packet = [] then (None, sock')
             else recv_all_loop sock' n (data @ packet))
      else (Some data, sock))"
  by pat_completeness auto
termination
  by (relation "measure (\<lambda>(sock, n, data). n - length data)") (auto simp: neq_Nil_conv)

definition recv_all :: "segment list \<Rightarrow> nat \<Rightarrow> byte list option \<times> segment list" where
  "recv_all sock n = recv_all_loop sock n []"

text \<open>
  One turn of the loop of the viewer's \<^verbatim>\<open>_handle_legacy_stream\<close>: \<open>Some img_data\<close> is
  the frame handed to \<^verbatim>\<open>QImage.fromData\<close>; \<open>None\<close> is a \<^verbatim>\<open>break\<close>
  (\<^verbatim>\<open>if not img_size_data\<close>, \<^verbatim>\<open>if not img_data\<close>: \<^verbatim>\<open>None\<close> and \<^verbatim>\<open>b''\<close> are both falsy).
\<close>

definition recv_frame :: "segment list \<Rightarrow> byte list option \<times> segment list" where
  "recv_frame sock =
     (case recv_all sock 4 of
        (None, sock1) \<Rightarrow> (None, sock1)
      | (Some img_size_data, sock1) \<Rightarrow>
          if img_size_data = [] then (None, sock1)
          else
            (case unpack_be32 img_size_data of
               Inl e \<Rightarrow> (None, sock1)
             | Inr img_size \<Rightarrow>
                 (case recv_all sock1 img_size of
                    (None, sock2) \<Rightarrow> (None, sock2)
                  | (Some img_data, sock2) \<Rightarrow>
                      if img_data = [] then (None, sock2) else (Some img_data, sock2))))"

text \<open>The bytes a list of segments delivers, and a list that delivers without an error.\<close>

fun delivered :: "segment list \<Rightarrow> byte list" where
  "delivered [] = []"
| "delivered (Data seg # segs) = seg @ delivered segs"
| "delivered (Recv_error # segs) = []"

fun clean :: "segment list \<Rightarrow> bool" where
  "clean [] = True"
| "clean (Data seg # segs) = (seg \<noteq> [] \<and> clean segs)"
| "clean (Recv_error # segs) = False"

section \<open>The host object\<close>

text \<open>
  \<^verbatim>\<open>str(n)\<close> of an \<^verbatim>\<open>int\<close>, and \<^verbatim>\<open>s.startswith(p)\<close>.
\<close>

fun str_of_nat :: "nat \<Rightarrow> string" where
  "str_of_nat n =
     (if n < 10 then [char_of (48 + n)]
      else str_of_nat (n div 10) @ [char_of (48 + n mod 10)])"

definition str_of_int :: "int \<Rightarrow> string" where
  "str_of_int i = (if i < 0 then CHR ''-'' # str_of_nat (nat (- i)) else str_of_nat (nat i))"

definition startswith :: "string \<Rightarrow> string \<Rightarrow> bool" where
  "startswith s p = (take (length p) s = p)"

text \<open>
  \<^verbatim>\<open>RemoteDesktopServer\<close>. A socket, a process (\<^verbatim>\<open>subprocess.Popen\<close>) and a thread are
  objects the host holds references to: a reference is a number, \<^verbatim>\<open>None\<close> is \<open>None\<close>,
  and the objects themselves are in the stores \<open>sockets\<close>, \<open>processes\<close> and
  \<open>threads\<close>. The attributes \<^verbatim>\<open>_media_thread\<close>, \<^verbatim>\<open>_stop_stream_event\<close>,
  \<^verbatim>\<open>_stop_heartbeat_event\<close>, \<^verbatim>\<open>_stop_control_event\<close>, \<^verbatim>\<open>_jpeg_quality\<close> and the other
  settings are written without the underscore; \<open>current_audio_thread\<close> is the local
  variable of \<^verbatim>\<open>run_server\<close>. \<open>config\<close> is the section \<^verbatim>\<open>ServerSettings\<close> of
  \<^verbatim>\<open>self.config\<close>, \<open>config_file\<close> that section of \<^verbatim>\<open>server.ini\<close>. \<open>trace\<close>
  records, in order, what the host does that others can observe: the Qt signals it emits
  (a status message is recorded with its error flag, without its text), the writes that
  succeed on a socket, the threads it starts and the processes it launches.
\<close>

datatype stream_target =
  Stream_ffmpeg | Stream_screen | Stream_audio | Connection_heartbeat | Log_stderr

record thread_state =
  target :: stream_target
  alive :: bool

record process_state =
  command :: "string list"
  exited :: bool
  terminate_calls :: nat
  kill_calls :: nat

datatype event =
    Status bool
  | Client_connected
  | Client_disconnected
  | Server_stopped
  | Sent nat "byte list"
  | Started nat stream_target
  | Launched nat "string list"

record server =
  is_running :: bool
  jpeg_quality :: int
  screen_capture_rate :: int
  is_muted :: bool
  encoder_mode :: string
  ffmpeg_encoder :: string
  server_socket :: "nat option"
  client_conn :: "nat option"
  audio_socket :: "nat option"
  audio_client_conn :: "nat option"
  control_socket_listener :: "nat option"
  control_client_conn :: "nat option"
  media_process :: "nat option"
  media_thread :: "nat option"
  current_audio_thread :: "nat option"
  stop_stream_event :: bool
  stop_heartbeat_event :: bool
  stop_control_event :: bool
  monitor_dims :: monitor_dims
  config :: "string \<rightharpoonup> string"
  config_file :: "string \<rightharpoonup> string"
  sockets :: "nat \<Rightarrow> socket_state"
  processes :: "nat \<Rightarrow> process_state"
  threads :: "nat \<Rightarrow> thread_state"
  next_ref :: nat
  trace :: "event list"

definition emit :: "event \<Rightarrow> server \<Rightarrow> server" where
  "emit e s = s\<lparr>trace := trace s @ [e]\<rparr>"

text \<open>
  \<^verbatim>\<open>threading.Thread(target=f, daemon=True)\<close> followed by \<^verbatim>\<open>start()\<close>: a new thread object
  under a fresh reference.
\<close>

definition start_thread :: "stream_target \<Rightarrow> server \<Rightarrow> nat \<times> server" where
  "start_thread f s =
     (let t = next_ref s
      in (t, emit (Started t f)
               (s\<lparr>threads := (threads s)(t := \<lparr>target = f, alive = True\<rparr>),
                  next_ref := Suc t\<rparr>)))"

text \<open>
  \<^verbatim>\<open>if t and t.is_alive(): t.join(timeout=...)\<close>. Whether the thread ends before the
  timeout is the first argument; the caller goes on either way.
\<close>

definition join_thread :: "bool \<Rightarrow> nat option \<Rightarrow> server \<Rightarrow> server" where
  "join_thread ends_in_time t s =
     (case t of
        None \<Rightarrow> s
      | Some i \<Rightarrow>
          if alive (threads s i) \<and> ends_in_time
          then s\<lparr>threads := (threads s)(i := (threads s i)\<lparr>alive := False\<rparr>)\<rparr>
          else s)"

text \<open>
  \<^verbatim>\<open>p.terminate()\<close>, then \<^verbatim>\<open>p.wait(timeout=2)\<close>, and \<^verbatim>\<open>p.kill()\<close> when the wait raises
  \<^verbatim>\<open>TimeoutExpired\<close>. Whether the process exits before the timeout is the first
  argument.
\<close>

definition terminate_wait_kill :: "bool \<Rightarrow> process_state \<Rightarrow> process_state" where
  "terminate_wait_kill exits_in_time p =
     (let p1 = p\<lparr>terminate_calls := Suc (terminate_calls p)\<rparr>
      in if exited p1 \<or> exits_in_time then p1\<lparr>exited := True\<rparr>
         else p1\<lparr>kill_calls := Suc (kill_calls p1), exited := True\<rparr>)"

definition stop_process :: "bool \<Rightarrow> nat \<Rightarrow> server \<Rightarrow> server" where
  "stop_process exits_in_time p s =
     s\<lparr>processes := (processes s)(p := terminate_wait_kill exits_in_time (processes s p))\<rparr>"

text \<open>\<^verbatim>\<open>self.client_conn.sendall(data)\<close> on the socket a reference stands for.\<close>

definition conn_sendall :: "nat \<Rightarrow> byte list \<Rightarrow> server \<Rightarrow> py_error + server" where
  "conn_sendall h data s =
     py_then (sendall (sockets s h) data) (\<lambda>c.
       Inr (emit (Sent h data) (s\<lparr>sockets := (sockets s)(h := c)\<rparr>)))"

section \<open>Restarting the media stream in a session\<close>

text \<open>
  \<^verbatim>\<open>restart_ffmpeg_stream\<close> (run under \<^verbatim>\<open>stream_management_lock\<close>). The two booleans say
  whether the old media thread ends within the join's two seconds and whether the old
  process exits within the wait's two seconds.
\<close>

definition restart_ffmpeg_stream :: "bool \<Rightarrow> bool \<Rightarrow> server \<Rightarrow> server" where
  "restart_ffmpeg_stream thread_ends process_exits s =
     (if \<not> is_running s \<or> \<not> startswith (encoder_mode s) ''FFmpeg'' \<or> client_conn s = None
      then s
      else
        let s1 = emit (Status False) s;
            s2 = s1\<lparr>stop_stream_event := True\<rparr>;
            s3 = join_thread thread_ends (media_thread s2) s2;
            s4 = (case media_process s3 of
                    None \<Rightarrow> s3
                  | Some p \<Rightarrow> (stop_process process_exits p s3)\<lparr>media_process := None\<rparr>);
            s5 = s4\<lparr>media_thread := None, stop_stream_event := False\<rparr>;
            (t, s6) = start_thread Stream_ffmpeg s5;
            s7 = s6\<lparr>media_thread := Some t\<rparr>
        in emit (Status False) s7)"

text \<open>
  \<^verbatim>\<open>_restart_media_streams\<close> (also under \<^verbatim>\<open>stream_management_lock\<close>): the join waits three
  seconds, and the process is terminated only when \<^verbatim>\<open>poll()\<close> is \<^verbatim>\<open>None\<close>.
\<close>

definition restart_media_streams :: "bool \<Rightarrow> bool \<Rightarrow> server \<Rightarrow> server" where
  "restart_media_streams thread_ends process_exits s =
     (let s1 = emit (Status False) s;
          s2 = s1\<lparr>stop_stream_event := True\<rparr>;
          s3 = join_thread thread_ends (media_thread s2) s2;
          s4 = (case media_process s3 of
                  None \<Rightarrow> s3
                | Some p \<Rightarrow>
                    if \<not> exited (processes s3 p) then stop_process process_exits p s3 else s3);
          s5 = s4\<lparr>media_thread := None, media_process := None, stop_stream_event := False\<rparr>
      in if client_conn s5 \<noteq> None then
           (let (t, s6) = start_thread
                  (if startswith (encoder_mode s5) ''FFmpeg'' then Stream_ffmpeg else Stream_screen) s5;
                s7 = s6\<lparr>media_thread := Some t\<rparr>
            in emit (Status False) s7)
         else emit (Status False) s5)"




definition toggle_mute :: "bool \<Rightarrow> bool \<Rightarrow> bool \<Rightarrow> server \<Rightarrow> server" where
  "toggle_mute checked thread_ends process_exits s =
     (let s1 = s\<lparr>is_muted := checked\<rparr>
      in if startswith (encoder_mode s1) ''FFmpeg'' \<and> is_running s1 \<and> client_conn s1 \<noteq> None
         then restart_ffmpeg_stream thread_ends process_exits s1
         else s1)"

section \<open>The managed encoder stream\<close>

text \<open>
  What \<^verbatim>\<open>stream_ffmpeg\<close> reads from outside the host object: whether
  \<^verbatim>\<open>shutil.which('ffmpeg')\<close> finds the program, \<^verbatim>\<open>sys.platform\<close> (\<open>Linux\<close> stands
  for every value other than \<^verbatim>\<open>win32\<close> and \<^verbatim>\<open>darwin\<close>, as the \<^verbatim>\<open>else\<close> branches do), the variable
  \<^verbatim>\<open>DISPLAY\<close> (with its default \<^verbatim>\<open>:0\<close>), and the output of
  \<^verbatim>\<open>pactl get-default-sink\<close> (\<open>None\<close> when the call fails).
\<close>

datatype platform = Win32 | Darwin | Linux

record host_env =
  ffmpeg_found :: bool
  platform :: platform
  display :: string
  default_sink :: "string option"

text \<open>The command line built in \<^verbatim>\<open>stream_ffmpeg\<close>; \<^verbatim>\<open>RATE\<close> is 48000, \<^verbatim>\<open>CHANNELS\<close> is 2.\<close>

definition audio_input_configured :: "host_env \<Rightarrow> bool \<Rightarrow> bool" where
  "audio_input_configured env muted =
     (if muted then False
      else (case platform env of
              Win32 \<Rightarrow> True
            | Darwin \<Rightarrow> True
            | Linux \<Rightarrow> default_sink env \<noteq> None))"

definition ffmpeg_command :: "host_env \<Rightarrow> monitor_dims \<Rightarrow> int \<Rightarrow> string \<Rightarrow> bool \<Rightarrow> string list" where
  "ffmpeg_command env m rate encoder muted =
     [''ffmpeg'', ''-y'', ''-loglevel'', ''error'']
     @ (case platform env of
          Win32 \<Rightarrow> [''-f'', ''gdigrab'', ''-framerate'', str_of_int rate, ''-i'', ''desktop'']
        | Darwin \<Rightarrow> [''-f'', ''avfoundation'', ''-framerate'', str_of_int rate, ''-i'', ''1:0'']
        | Linux \<Rightarrow>
            [''-f'', ''x11grab'', ''-video_size'',
             str_of_int (mon_width m) @ ''x'' @ str_of_int (mon_height m),
             ''-framerate'', str_of_int rate, ''-i'',
             display env @ ''+'' @ str_of_int (mon_left m) @ '','' @ str_of_int (mon_top m)])
     @ (if muted then []
        else (case platform env of
                Win32 \<Rightarrow> [''-f'', ''dshow'', ''-i'', ''audio=Stereo Mix'']
              | Darwin \<Rightarrow> [''-f'', ''avfoundation'', ''-i'', ''none:0'']
              | Linux \<Rightarrow>
                  (case default_sink env of
                     None \<Rightarrow> []
                   | Some pactl_output \<Rightarrow> [''-f'', ''pulse'', ''-i'', pactl_output @ ''.monitor''])))
     @ [''-c:v'', encoder]
     @ [''-g'', str_of_int (rate * 2)]
     @ (if encoder = ''libx264''
        then [''-preset'', ''ultrafast'', ''-tune'', ''zerolatency'', ''-crf'', ''28'']
        else [''-preset'', ''p1'', ''-tune'', ''ll'', ''-b:v'', ''8M''])
     @ (if audio_input_configured env muted
        then [''-c:a'', ''libopus'', ''-b:a'', ''128k'', ''-ar'', str_of_int 48000, ''-ac'', str_of_int 2]
        else [''-an''])
     @ [''-f'', ''mpegts'', ''pipe:1'']"

text \<open>
  \<^verbatim>\<open>stream_ffmpeg\<close> up to its loop: the settings are read, the command is built, the
  process is launched and stored in \<^verbatim>\<open>self.media_process\<close>, and the thread that logs
  its error stream is started. \<open>None\<close> is the early \<^verbatim>\<open>return\<close>.
\<close>

definition stream_ffmpeg_launch :: "host_env \<Rightarrow> server \<Rightarrow> server option" where
  "stream_ffmpeg_launch env s =
     (if \<not> ffmpeg_found env then None
      else
        let rate = screen_capture_rate s;
            encoder = ffmpeg_encoder s;
            muted = is_muted s;
            s1 = emit (Status False) s;
            s2 = (if muted \<or> platform env \<noteq> Linux then s1
                  else emit (Status (default_sink env = None)) s1);
            cmd = ffmpeg_command env (monitor_dims s2) rate encoder muted;
            p = next_ref s2;
            s3 = emit (Launched p cmd)
                   (s2\<lparr>processes := (processes s2)
                          (p := \<lparr>command = cmd, exited = False, terminate_calls = 0, kill_calls = 0\<rparr>),
                        next_ref := Suc p, media_process := Some p\<rparr>)
        in Some (snd (start_thread Log_stderr s3)))"

text \<open>
  One turn of the loop of \<^verbatim>\<open>stream_ffmpeg\<close> sees what other threads and the encoder
  have done meanwhile: \<^verbatim>\<open>self.is_running\<close>, \<^verbatim>\<open>self._stop_stream_event.is_set()\<close>,
  \<^verbatim>\<open>self.client_conn\<close>, \<^verbatim>\<open>self.media_process.poll() is not None\<close> at the head of the
  turn, the bytes read from the encoder's output, and \<^verbatim>\<open>poll() is not None\<close> after an
  empty read. The loop is run on the list of these observations; the result says whether
  the loop has ended (\<open>True\<close>) or is still waiting for more (\<open>False\<close>).
\<close>

record ffmpeg_turn =
  seen_running :: bool
  seen_stop_stream :: bool
  seen_conn :: "nat option"
  exited_at_head :: bool
  chunk :: "byte list"
  exited_after_read :: bool

fun stream_ffmpeg_loop :: "ffmpeg_turn list \<Rightarrow> server \<Rightarrow> bool \<times> server" where
  "stream_ffmpeg_loop [] s = (False, s)"
| "stream_ffmpeg_loop (t # ts) s =
     (if \<not> (seen_running t \<and> \<not> seen_stop_stream t) then (True, s)
      else
        (case seen_conn t of
           None \<Rightarrow> (True, s)
         | Some conn \<Rightarrow>
             if exited_at_head t then (True, s)
             else if chunk t = [] then
               (if exited_after_read t then (True, s) else stream_ffmpeg_loop ts s)
             else
               (case conn_sendall conn (chunk t) s of
                  Inl e \<Rightarrow> (True, (emit (Status False) s)\<lparr>stop_heartbeat_event := True\<rparr>)
                | Inr s' \<Rightarrow> stream_ffmpeg_loop ts s')))"

text \<open>The \<^verbatim>\<open>finally\<close> block of \<^verbatim>\<open>stream_ffmpeg\<close>.\<close>

definition stream_ffmpeg_finally :: "server \<Rightarrow> server" where
  "stream_ffmpeg_finally s =
     (let s1 = (case media_process s of
                  None \<Rightarrow> s
                | Some p \<Rightarrow>
                    if \<not> exited (processes s p)
                    then s\<lparr>processes := (processes s)
                            (p := (processes s p)\<lparr>terminate_calls := Suc (terminate_calls (processes s p))\<rparr>)\<rparr>
                    else s)
      in emit (Status False) (s1\<lparr>media_process := None\<rparr>))"

definition stream_ffmpeg :: "host_env \<Rightarrow> ffmpeg_turn list \<Rightarrow> server \<Rightarrow> bool \<times> server" where
  "stream_ffmpeg env turns s =
     (case stream_ffmpeg_launch env s of
        None \<Rightarrow> (True, emit (Status True) s)
      | Some s1 \<Rightarrow>
          (case stream_ffmpeg_loop turns s1 of
             (True, s2) \<Rightarrow> (True, stream_ffmpeg_finally s2)
           | (False, s2) \<Rightarrow> (False, s2)))"

section \<open>Accepting a viewer\<close>

text \<open>
  \<^verbatim>\<open>mode_byte = 'F' if self.encoder_mode.startswith("FFmpeg") else 'L'\<close>, and
  \<^verbatim>\<open>mode_byte.encode()\<close> (the bytes of an ASCII string).
\<close>

definition mode_byte_of :: "string \<Rightarrow> string" where
  "mode_byte_of mode = (if startswith mode ''FFmpeg'' then ''F'' else ''L'')"

definition encode :: "string \<Rightarrow> byte list" where
  "encode s = map (\<lambda>c. of_nat (of_char c)) s"

text \<open>
  The body of the accept loop of \<^verbatim>\<open>run_server\<close>, from the return of
  \<^verbatim>\<open>self.server_socket.accept()\<close> with the new connection \<open>conn\<close> to the start of the
  heartbeat thread. \<open>audio_conn\<close> is what the accept on the audio listener yields
  (\<open>None\<close> when it times out), \<open>env\<close> tells the platform. The result is
  \<open>(Some e, s')\<close> when \<open>e\<close> is raised with the host left in \<open>s'\<close>. \<open>start_streams\<close>
  is the part after the mode byte has been written.
\<close>

definition accept_audio :: "nat option \<Rightarrow> host_env \<Rightarrow> server \<Rightarrow> server" where
  "accept_audio audio_conn env s =
     (case audio_conn of
        None \<Rightarrow> (emit (Status False) s)\<lparr>audio_client_conn := None\<rparr>
      | Some a \<Rightarrow>
          (let s1 = emit (Status False) (s\<lparr>audio_client_conn := Some a\<rparr>)
           in if platform env = Linux then
                (let (t, s2) = start_thread Stream_audio s1
                 in s2\<lparr>current_audio_thread := Some t\<rparr>)
              else (emit (Status True) s1)\<lparr>audio_client_conn := None\<rparr>))"

definition start_streams :: "nat option \<Rightarrow> host_env \<Rightarrow> string \<Rightarrow> server \<Rightarrow> server" where
  "start_streams audio_conn env mode_byte s2 =
     (let s3 = emit Client_connected (emit (Status False) s2);
          s4 = s3\<lparr>stop_heartbeat_event := False\<rparr>;
          s5 = (if mode_byte = ''L'' \<and> audio_socket s4 \<noteq> None
                then accept_audio audio_conn env s4 else s4);
          s6 = s5\<lparr>stop_stream_event := False, media_thread := None\<rparr>;
          (t, s7) = start_thread
             (if startswith (encoder_mode s6) ''FFmpeg'' then Stream_ffmpeg else Stream_screen) s6;
          s8 = s7\<lparr>media_thread := Some t\<rparr>;
          (h, s9) = start_thread Connection_heartbeat s8
      in s9)"

definition session_begin :: "nat \<Rightarrow> nat option \<Rightarrow> host_env \<Rightarrow> server \<Rightarrow> py_error option \<times> server" where
  "session_begin conn audio_conn env s =
     (let s1 = s\<lparr>client_conn := Some conn\<rparr>;
          mode_byte = mode_byte_of (encoder_mode s1)
      in case conn_sendall conn (encode mode_byte) s1 of
           Inl e \<Rightarrow> (Some e, s1)
         | Inr s2 \<Rightarrow> (None, start_streams audio_conn env mode_byte s2))"

text \<open>
  The viewer's side, in \<^verbatim>\<open>_connect_sockets\<close>: \<^verbatim>\<open>recv(1)\<close>, an error when nothing came,
  and the byte decoded (\<^verbatim>\<open>bytes.decode()\<close> of one byte succeeds for an ASCII byte only).
\<close>

definition read_mode :: "segment list \<Rightarrow> (py_error + string) \<times> segment list" where
  "read_mode sock =
     (case recv sock 1 of
        (Inl e, sock') \<Rightarrow> (Inl e, sock')
      | (Inr mode_byte, sock') \<Rightarrow>
          if mode_byte = [] then (Inl OSError, sock')
          else if list_all (\<lambda>b. unat b < 128) mode_byte
            then (Inr (map (\<lambda>b. char_of (unat b)) mode_byte), sock')
          else (Inl UnicodeDecodeError, sock'))"

section \<open>Tearing down\<close>

text \<open>
  The function \<^verbatim>\<open>close_socket\<close> inside \<^verbatim>\<open>stop_server\<close>, and the same two calls as the
  \<^verbatim>\<open>finally\<close> block of the accept loop writes them out: \<^verbatim>\<open>shutdown\<close> and \<^verbatim>\<open>close\<close>, each
  with its \<^verbatim>\<open>OSError\<close> passed over.
\<close>

definition shutdown_and_close :: "socket_state \<Rightarrow> socket_state" where
  "shutdown_and_close c =
     c\<lparr>shutdown_calls := Suc (shutdown_calls c), close_calls := Suc (close_calls c)\<rparr>"

definition close_socket :: "nat option \<Rightarrow> server \<Rightarrow> server" where
  "close_socket sock s =
     (case sock of
        None \<Rightarrow> s
      | Some h \<Rightarrow> s\<lparr>sockets := (sockets s)(h := shutdown_and_close (sockets s h))\<rparr>)"

text \<open>
  \<^verbatim>\<open>_save_settings\<close>: the five settings are set in \<^verbatim>\<open>self.config\<close> as strings and the
  file is written; \<open>disk_ok\<close> is false when the write raises \<^verbatim>\<open>IOError\<close>.
\<close>

definition str_of_bool :: "bool \<Rightarrow> string" where
  "str_of_bool b = (if b then ''True'' else ''False'')"

definition save_settings :: "bool \<Rightarrow> server \<Rightarrow> server" where
  "save_settings disk_ok s =
     (let cfg = (config s)
            (''jpeg_quality'' \<mapsto> str_of_int (jpeg_quality s),
             ''screen_capture_rate'' \<mapsto> str_of_int (screen_capture_rate s),
             ''is_muted'' \<mapsto> str_of_bool (is_muted s),
             ''encoder_mode'' \<mapsto> encoder_mode s,
             ''ffmpeg_encoder'' \<mapsto> ffmpeg_encoder s);
          s1 = s\<lparr>config := cfg\<rparr>
      in if disk_ok then emit (Status False) (s1\<lparr>config_file := cfg\<rparr>)
         else emit (Status True) s1)"


section \<open>Settings\<close>

text \<open>
  The readers of \<^verbatim>\<open>configparser\<close> on the section \<^verbatim>\<open>ServerSettings\<close>:
  \<^verbatim>\<open>getint(section, key, fallback=d)\<close> is \<^verbatim>\<open>int\<close> of the stored text,
  \<^verbatim>\<open>getboolean\<close> looks the lower-cased text up among \<^verbatim>\<open>1 yes true on\<close> and
  \<^verbatim>\<open>0 no false off\<close>, \<^verbatim>\<open>get\<close> returns the text; each returns the fallback for a
  missing key.
\<close>

definition getint :: "(string \<rightharpoonup> string) \<Rightarrow> string \<Rightarrow> int \<Rightarrow> py_error + int" where
  "getint cfg key fallback = (case cfg key of None \<Rightarrow> Inr fallback | Some v \<Rightarrow> int_of_str v)"

definition lower :: "string \<Rightarrow> string" where
  "lower s = map (\<lambda>c. if 65 \<le> (of_char c :: nat) \<and> (of_char c :: nat) \<le> 90
                        then char_of ((of_char c :: nat) + 32) else c) s"

definition getboolean :: "(string \<rightharpoonup> string) \<Rightarrow> string \<Rightarrow> bool \<Rightarrow> py_error + bool" where
  "getboolean cfg key fallback =
     (case cfg key of
        None \<Rightarrow> Inr fallback
      | Some v \<Rightarrow>
          if lower v \<in> set [''1'', ''yes'', ''true'', ''on''] then Inr True
          else if lower v \<in> set [''0'', ''no'', ''false'', ''off''] then Inr False
          else Inl ValueError)"

definition get_str :: "(string \<rightharpoonup> string) \<Rightarrow> string \<Rightarrow> string \<Rightarrow> string" where
  "get_str cfg key fallback = (case cfg key of None \<Rightarrow> fallback | Some v \<Rightarrow> v)"

text \<open>\<^verbatim>\<open>_load_settings\<close>: \<^verbatim>\<open>self.config.read(CONFIG_FILE)\<close>, then the five settings.\<close>

definition load_settings :: "server \<Rightarrow> py_error + server" where
  "load_settings s =
     (let cfg = config s ++ config_file s
      in py_then (getint cfg ''jpeg_quality'' 75) (\<lambda>q.
         py_then (getint cfg ''screen_capture_rate'' 30) (\<lambda>r.
         py_then (getboolean cfg ''is_muted'' False) (\<lambda>m.
           Inr (s\<lparr>config := cfg, jpeg_quality := q, screen_capture_rate := r, is_muted := m,
                  encoder_mode := get_str cfg ''encoder_mode'' ''Legacy (Slow)'',
                  ffmpeg_encoder := get_str cfg ''ffmpeg_encoder'' ''libx264''\<rparr>)))))"

text \<open>
  \<^verbatim>\<open>RemoteDesktopServer.__init__\<close>, for the content of \<^verbatim>\<open>server.ini\<close> and for what
  \<^verbatim>\<open>mss\<close> reports: the library is missing, it raises \<^verbatim>\<open>ScreenShotError\<close>, or it gives
  the rectangle of all monitors. Without a rectangle the fallback is 1920 x 1080 at the
  origin. The settings have no value before \<^verbatim>\<open>_load_settings\<close> assigns them.
\<close>

datatype mss_result = No_mss | Screen_shot_error | Monitors monitor_dims

definition new_socket :: socket_state where
  "new_socket = \<lparr>wire = [], broken = False, shutdown_calls = 0, close_calls = 0\<rparr>"

definition init_server :: "(string \<rightharpoonup> string) \<Rightarrow> mss_result \<Rightarrow> py_error + server" where
  "init_server ini mss =
     load_settings
       \<lparr>is_running = False, jpeg_quality = 0, screen_capture_rate = 0, is_muted = False,
        encoder_mode = [], ffmpeg_encoder = [],
        server_socket = None, client_conn = None, audio_socket = None,
        audio_client_conn = None, control_socket_listener = None, control_client_conn = None,
        media_process = None, media_thread = None, current_audio_thread = None,
        stop_stream_event = False, stop_heartbeat_event = False, stop_control_event = False,
        monitor_dims = (case mss of
                          Monitors m \<Rightarrow> m
                        | _ \<Rightarrow> \<lparr>mon_left = 0, mon_top = 0, mon_width = 1920, mon_height = 1080\<rparr>),
        config = Map.empty, config_file = ini,
        sockets = (\<lambda>h. new_socket),
        processes = (\<lambda>p. \<lparr>command = [], exited = False, terminate_calls = 0, kill_calls = 0\<rparr>),
        threads = (\<lambda>t. \<lparr>target = Connection_heartbeat, alive = False\<rparr>),
        next_ref = 0,
        trace = (case mss of
                   Monitors m \<Rightarrow> [Status False]
                 | Screen_shot_error \<Rightarrow> [Status True, Status True]
                 | No_mss \<Rightarrow> [Status True])\<rparr>"










section \<open>The legacy video loop\<close>

text \<open>
  One turn of the loop of \<^verbatim>\<open>stream_screen_x11\<close> reads
  \<^verbatim>\<open>rate, quality = self.screen_capture_rate, self.jpeg_quality\<close>, grabs the screen,
  encodes it as JPEG at that quality, writes the frame and sleeps
  \<^verbatim>\<open>1 / rate if rate > 0 else 1\<close> seconds. A turn sees \<^verbatim>\<open>self.is_running\<close> and the
  stop event, whether the grab raises \<^verbatim>\<open>ScreenShotError\<close>, and the encoder's output
  for the quality it is given (\<open>None\<close> when the encoder raises).
\<close>

definition frame_settings :: "server \<Rightarrow> int \<times> int" where
  "frame_settings s = (screen_capture_rate s, jpeg_quality s)"

definition frame_interval :: "int \<Rightarrow> rat" where
  "frame_interval rate = (if rate > 0 then 1 / of_int rate else 1)"


record x11_turn =
  x_running :: bool
  x_stop_stream :: bool
  grab_fails :: bool
  jpeg :: "int \<Rightarrow> byte list option"

fun stream_screen_x11_loop :: "x11_turn list \<Rightarrow> server \<Rightarrow> bool \<times> server" where
  "stream_screen_x11_loop [] s = (False, s)"
| "stream_screen_x11_loop (t # ts) s =
     (if \<not> (x_running t \<and> \<not> x_stop_stream t) then (True, s)
      else
        let (rate, quality) = frame_settings s
        in if grab_fails t then (True, (emit (Status False) s)\<lparr>stop_heartbeat_event := True\<rparr>)
           else
             (case jpeg t quality of
                None \<Rightarrow> (True, emit (Status True) s)
              | Some img_bytes \<Rightarrow>
                  (case client_conn s of
                     None \<Rightarrow> (True, emit (Status True) s)
                   | Some conn \<Rightarrow>
                       (case pack_be32 (length img_bytes) of
                          Inl e \<Rightarrow> (True, emit (Status True) s)
                        | Inr header \<Rightarrow>
                            (case conn_sendall conn header s of
                               Inl e \<Rightarrow> (True, (emit (Status False) s)\<lparr>stop_heartbeat_event := True\<rparr>)
                             | Inr s1 \<Rightarrow>
                                 (case conn_sendall conn img_bytes s1 of
                                    Inl e \<Rightarrow>
                                      (True, (emit (Status False) s1)\<lparr>stop_heartbeat_event := True\<rparr>)
                                  | Inr s2 \<Rightarrow> stream_screen_x11_loop ts s2))))))"

section \<open>Teardown, statement by statement\<close>

text \<open>
  \<^verbatim>\<open>stop_server\<close> takes no lock, and it is called from more than one thread (the window's
  \<^verbatim>\<open>stop_server\<close> in the GUI thread, the \<^verbatim>\<open>finally\<close> of \<^verbatim>\<open>run_server\<close> in the server
  thread). To follow two calls that overlap, the method is also given as the list of its
  statements, each executed in one step on the shared host object (the three \<^verbatim>\<open>set()\<close>
  calls on the stop events are one step, the call of \<^verbatim>\<open>_save_settings\<close> is one step, and
  \<^verbatim>\<open>time.sleep(0.1)\<close> is left out). A statement that reads
  \<^verbatim>\<open>self.media_process\<close> to call a method on it raises \<^verbatim>\<open>AttributeError\<close> when the
  attribute is \<^verbatim>\<open>None\<close> by then. \<open>Call_close_socket f\<close> evaluates the argument
  \<^verbatim>\<open>self.f\<close> and enters \<^verbatim>\<open>close_socket\<close>, whose \<^verbatim>\<open>shutdown\<close> and \<^verbatim>\<open>close\<close> then act on
  the socket that was read.
\<close>

datatype handle_field =
    F_client_conn | F_audio_client_conn | F_control_client_conn
  | F_server_socket | F_audio_socket | F_control_socket_listener

fun get_field :: "handle_field \<Rightarrow> server \<Rightarrow> nat option" where
  "get_field F_client_conn s = client_conn s"
| "get_field F_audio_client_conn s = audio_client_conn s"
| "get_field F_control_client_conn s = control_client_conn s"
| "get_field F_server_socket s = server_socket s"
| "get_field F_audio_socket s = audio_socket s"
| "get_field F_control_socket_listener s = control_socket_listener s"

fun clear_field :: "handle_field \<Rightarrow> server \<Rightarrow> server" where
  "clear_field F_client_conn s = s\<lparr>client_conn := None\<rparr>"
| "clear_field F_audio_client_conn s = s\<lparr>audio_client_conn := None\<rparr>"
| "clear_field F_control_client_conn s = s\<lparr>control_client_conn := None\<rparr>"
| "clear_field F_server_socket s = s\<lparr>server_socket := None\<rparr>"
| "clear_field F_audio_socket s = s\<lparr>audio_socket := None\<rparr>"
| "clear_field F_control_socket_listener s = s\<lparr>control_socket_listener := None\<rparr>"


datatype instr =
    Guard
  | Emit_status
  | Set_not_running
  | Set_stop_events
  | If_media_process bool
  | Terminate
  | Wait bool
  | Kill
  | Clear_media_process
  | Call_close_socket handle_field
  | Shutdown nat
  | Close nat
  | Clear_field handle_field
  | Save_settings bool
  | Emit_stopped


text \<open>
  One statement, with the statements that follow it: the exception it raises if any, the
  statements still to run, and the host object afterwards.
\<close>

fun exec_instr :: "instr \<Rightarrow> instr list \<Rightarrow> server \<Rightarrow> py_error option \<times> instr list \<times> server" where
  "exec_instr Guard rest s =
     (if \<not> is_running s \<and> server_socket s = None then (None, [], s) else (None, rest, s))"
| "exec_instr Emit_status rest s = (None, rest, emit (Status False) s)"
| "exec_instr Set_not_running rest s = (None, rest, s\<lparr>is_running := False\<rparr>)"
| "exec_instr Set_stop_events rest s =
     (None, rest, s\<lparr>stop_stream_event := True, stop_heartbeat_event := True,
                     stop_control_event := True\<rparr>)"
| "exec_instr (If_media_process process_exits) rest s =
     (if media_process s \<noteq> None
      then (None, Terminate # Wait process_exits # Clear_media_process # rest, s)
      else (None, rest, s))"
| "exec_instr Terminate rest s =
     (case media_process s of
        None \<Rightarrow> (Some AttributeError, [], s)
      | Some p \<Rightarrow>
          (None, rest,
           s\<lparr>processes := (processes s)
                (p := (processes s p)\<lparr>terminate_calls := Suc (terminate_calls (processes s p))\<rparr>)\<rparr>))"
| "exec_instr (Wait process_exits) rest s =
     (case media_process s of
        None \<Rightarrow> (Some AttributeError, [], s)
      | Some p \<Rightarrow>
          if exited (processes s p) \<or> process_exits
          then (None, rest, s\<lparr>processes := (processes s)(p := (processes s p)\<lparr>exited := True\<rparr>)\<rparr>)
          else (None, Kill # rest, s))"
| "exec_instr Kill rest s =
     (case media_process s of
        None \<Rightarrow> (Some AttributeError, [], s)
      | Some p \<Rightarrow>
          (None, rest,
           s\<lparr>processes := (processes s)
                (p := (processes s p)\<lparr>kill_calls := Suc (kill_calls (processes s p)),
                                      exited := True\<rparr>)\<rparr>))"
| "exec_instr Clear_media_process rest s = (None, rest, s\<lparr>media_process := None\<rparr>)"
| "exec_instr (Call_close_socket f) rest s =
     (case get_field f s of
        None \<Rightarrow> (None, rest, s)
      | Some sock \<Rightarrow> (None, Shutdown sock # Close sock # rest, s))"
| "exec_instr (Shutdown sock) rest s =
     (None, rest,
      s\<lparr>sockets := (sockets s)
           (sock := (sockets s sock)\<lparr>shutdown_calls := Suc (shutdown_calls (sockets s sock))\<rparr>)\<rparr>)"
| "exec_instr (Close sock) rest s =
     (None, rest,
      s\<lparr>sockets := (sockets s)
           (sock := (sockets s sock)\<lparr>close_calls := Suc (close_calls (sockets s sock))\<rparr>)\<rparr>)"
| "exec_instr (Clear_field f) rest s = (None, rest, clear_field f s)"
| "exec_instr (Save_settings disk_ok) rest s = (None, rest, save_settings disk_ok s)"
| "exec_instr Emit_stopped rest s = (None, rest, emit Server_stopped s)"

text \<open>
  A thread inside \<^verbatim>\<open>stop_server\<close>: the statements it still has to run, and the exception
  that ended it. \<open>step\<close> runs its next statement. \<open>interleave\<close> runs two threads on the
  same host object, \<open>True\<close> in the schedule for a step of the first, \<open>False\<close> for a
  step of the second.
\<close>

record thread_run =
  todo :: "instr list"
  raised :: "py_error option"

definition step :: "thread_run \<Rightarrow> server \<Rightarrow> thread_run \<times> server" where
  "step t s =
     (case todo t of
        [] \<Rightarrow> (t, s)
      | i # rest \<Rightarrow>
          (case exec_instr i rest s of
             (e, todo', s') \<Rightarrow> (\<lparr>todo = todo', raised = e\<rparr>, s')))"




section \<open>The control channel\<close>















section \<open>Proofs: coordinate mapping\<close>

lemma py_then_Inr [simp]: "py_then (Inr v) f = f v"
  by (simp add: py_then_def)

lemma py_then_Inl [simp]: "py_then (Inl e) f = Inl e"
  by (simp add: py_then_def)
























section \<open>Proofs: the legacy frame protocol\<close>

lemma unat_byte_of_nat: "unat (of_nat (k mod 256) :: byte) = k mod 256"
  by (simp add: unat_of_nat)

lemma be32_digits:
  fixes n :: nat
  assumes "n < 2 ^ 32"
  shows "(n div 2 ^ 24 mod 256) * 2 ^ 24 + (n div 2 ^ 16 mod 256) * 2 ^ 16
         + (n div 2 ^ 8 mod 256) * 2 ^ 8 + n mod 256 = n"
proof -
  have "n div 2 ^ 24 < 256" using assms by (simp add: less_mult_imp_div_less)
  then have a: "n div 2 ^ 24 mod 256 = n div 2 ^ 24" by simp
  have b: "n div 2 ^ 16 mod 256 = n div 2 ^ 16 - (n div 2 ^ 24) * 256"
    by (simp add: minus_mult_div_eq_mod [symmetric] div_mult2_eq [symmetric])
  have c: "n div 2 ^ 8 mod 256 = n div 2 ^ 8 - (n div 2 ^ 16) * 256"
    by (simp add: minus_mult_div_eq_mod [symmetric] div_mult2_eq [symmetric])
  have d: "n mod 256 = n - (n div 2 ^ 8) * 256"
    by (simp add: minus_mult_div_eq_mod [symmetric])
  have e: "(n div 2 ^ 24) * 256 \<le> n div 2 ^ 16" "(n div 2 ^ 16) * 256 \<le> n div 2 ^ 8"
    "(n div 2 ^ 8) * 256 \<le> n"
    by (simp_all add: div_mult2_eq [symmetric] flip: times_div_less_eq_dividend) (presburger+)?
  show ?thesis unfolding a b c d using e by (simp add: algebra_simps diff_mult_distrib)
qed

lemma unpack_pack_be32:
  assumes "pack_be32 n = Inr header"
  shows "unpack_be32 header = Inr n \<and> length header = 4"
proof -
  from assms have n: "n < 2 ^ 32" and h: "header = [of_nat (n div 2 ^ 24 mod 256), of_nat (n div 2 ^ 16 mod 256),
                of_nat (n div 2 ^ 8 mod 256), of_nat (n mod 256)]"
    by (auto simp: pack_be32_def split: if_splits)
  have "n div 2 ^ 24 < 256" using n by (simp add: less_mult_imp_div_less)
  then have top: "n div 2 ^ 24 mod 256 = n div 2 ^ 24" by simp
  have "unat (of_nat (n div 2 ^ 24 mod 256) :: byte) * 2 ^ 24
        + unat (of_nat (n div 2 ^ 16 mod 256) :: byte) * 2 ^ 16
        + unat (of_nat (n div 2 ^ 8 mod 256) :: byte) * 2 ^ 8
        + unat (of_nat (n mod 256) :: byte) = n"
    unfolding unat_byte_of_nat by (rule be32_digits [OF n])
  then show ?thesis
    unfolding h unpack_be32_def by simp
qed


lemma recv_all_loop_clean:
  assumes "clean sock" "n - length data \<le> length (delivered sock)"
  shows "\<exists>sock'. recv_all_loop sock n data
            = (Some (data @ take (n - length data) (delivered sock)), sock')
          \<and> clean sock' \<and> delivered sock' = drop (n - length data) (delivered sock)"
  using assms
proof (induction sock n data rule: recv_all_loop.induct)
  case (1 sock n data)
  show ?case
  proof (cases "length data < n")
    case False
    then show ?thesis using "1.prems" by (simp add: recv_all_loop.simps [of sock n data])
  next
    case True
    with "1.prems" obtain seg segs where sock: "sock = Data seg # segs" and seg: "seg \<noteq> []"
      and cl: "clean segs"
      by (cases sock rule: clean.cases) auto
    let ?k = "n - length data"
    let ?sock' = "if length seg \<le> ?k then segs else Data (drop ?k seg) # segs"
    have rc: "recv sock ?k = (Inr (take ?k seg), ?sock')"
      by (simp add: sock)
    have ne: "take ?k seg \<noteq> []" using True seg by simp
    have cl': "clean ?sock'" using cl by simp
    have enough: "n - length (data @ take ?k seg) \<le> length (delivered ?sock')"
      using "1.prems"(2) by (auto simp: sock min_def)
    from "1.IH" [OF True rc [symmetric] refl ne cl' enough]
    obtain s' where r: "recv_all_loop ?sock' n (data @ take ?k seg)
          = (Some ((data @ take ?k seg) @ take (n - length (data @ take ?k seg)) (delivered ?sock')), s')"
      and c: "clean s'"
      and d: "delivered s' = drop (n - length (data @ take ?k seg)) (delivered ?sock')"
      by blast
    have step: "recv_all_loop sock n data = recv_all_loop ?sock' n (data @ take ?k seg)"
      using True ne rc by (simp add: recv_all_loop.simps [of sock n data])
    have t: "(data @ take ?k seg) @ take (n - length (data @ take ?k seg)) (delivered ?sock')
             = data @ take ?k (delivered sock)"
      using True by (auto simp: sock min_def)
    have dd: "drop (n - length (data @ take ?k seg)) (delivered ?sock') = drop ?k (delivered sock)"
      using True by (auto simp: sock min_def)
    show ?thesis using step r c d t dd by simp
  qed
qed

lemma recv_all_clean:
  assumes "clean sock" "delivered sock = bs @ rest" "length bs = n"
  shows "\<exists>sock'. recv_all sock n = (Some bs, sock') \<and> clean sock' \<and> delivered sock' = rest"
  using recv_all_loop_clean [of sock n "[]"] assms by (simp add: recv_all_def)

lemma sendall_usable:
  "usable c \<Longrightarrow> sendall c data = Inr (c\<lparr>wire := wire c @ data\<rparr>)"
  by (simp add: sendall_def)

lemma usable_wire_update [simp]: "usable (c\<lparr>wire := w\<rparr>) = usable c"
  by (simp add: usable_def)


text \<open>
  C5. Round trip of the legacy frame protocol. For an encoded image of \<open>N\<close> bytes
  (\<open>0 < N < 2 ^ 32\<close>) the sender writes exactly the four bytes of \<open>N\<close>, most
  significant first, and then the \<open>N\<close> image bytes. A receiver to which these bytes
  arrive, in whatever segments and followed by whatever else, reads exactly four bytes,
  then exactly \<open>N\<close> bytes, and hands on the image bytes unchanged; what follows the
  frame is left in the connection.
\<close>

theorem legacy_frame_round_trip:
  assumes "img_bytes \<noteq> []" "length img_bytes < 2 ^ 32" "usable c"
  shows "\<exists>header.
      pack_be32 (length img_bytes) = Inr header \<and> length header = 4 \<and>
      unpack_be32 header = Inr (length img_bytes) \<and>
      send_frame c img_bytes = Inr (c\<lparr>wire := wire c @ header @ img_bytes\<rparr>) \<and>
      (\<forall>sock rest. clean sock \<and> delivered sock = header @ img_bytes @ rest \<longrightarrow>
         (\<exists>sock'. recv_frame sock = (Some img_bytes, sock') \<and> clean sock' \<and>
                  delivered sock' = rest))"
proof -
  from assms(2) obtain header where p: "pack_be32 (length img_bytes) = Inr header"
    by (simp add: pack_be32_def)
  from unpack_pack_be32 [OF p] have u: "unpack_be32 header = Inr (length img_bytes)"
    and l: "length header = 4" by simp_all
  have s: "send_frame c img_bytes = Inr (c\<lparr>wire := wire c @ header @ img_bytes\<rparr>)"
    using assms(3) by (simp add: send_frame_def p sendall_usable)
  have r: "\<exists>sock'. recv_frame sock = (Some img_bytes, sock') \<and> clean sock' \<and> delivered sock' = rest"
    if c: "clean sock" and d: "delivered sock = header @ img_bytes @ rest" for sock rest
  proof -
    from recv_all_clean [OF c d l] obtain sock1 where
      r1: "recv_all sock 4 = (Some header, sock1)" and c1: "clean sock1"
      and d1: "delivered sock1 = img_bytes @ rest" by blast
    from recv_all_clean [OF c1 d1 refl] obtain sock2 where
      r2: "recv_all sock1 (length img_bytes) = (Some img_bytes, sock2)" and c2: "clean sock2"
      and d2: "delivered sock2 = rest" by blast
    have "header \<noteq> []" using l by auto
    then have "recv_frame sock = (Some img_bytes, sock2)"
      using assms(1) by (simp add: recv_frame_def r1 r2 u)
    with c2 d2 show ?thesis by blast
  qed
  from p l u s r show ?thesis by blast
qed

theorem legacy_frame_round_trip_witness:
  "[255, 216, 255 :: byte] \<noteq> [] \<and> length [255, 216, 255 :: byte] < 2 ^ 32 \<and>
   usable \<lparr>wire = [], broken = False, shutdown_calls = 0, close_calls = 0\<rparr> \<and>
   send_frame \<lparr>wire = [], broken = False, shutdown_calls = 0, close_calls = 0\<rparr> [255, 216, 255]
     = Inr \<lparr>wire = [0, 0, 0, 3, 255, 216, 255], broken = False, shutdown_calls = 0, close_calls = 0\<rparr> \<and>
   (\<exists>sock'. recv_frame [Data [0, 0], Data [0, 3, 255], Data [216, 255, 7]] = (Some [255, 216, 255], sock')
      \<and> delivered sock' = [7])"
proof -
  let ?img = "[255, 216, 255 :: byte]"
  let ?c = "\<lparr>wire = [], broken = False, shutdown_calls = 0, close_calls = 0\<rparr>"
  have h: "?img \<noteq> []" "length ?img < 2 ^ 32" "usable ?c"
    by (simp_all add: usable_def)
  have p: "pack_be32 (length ?img) = Inr [0, 0, 0, 3]"
    by (simp add: pack_be32_def)
  from legacy_frame_round_trip [OF h] p
  have s: "send_frame ?c ?img = Inr (?c\<lparr>wire := wire ?c @ [0, 0, 0, 3] @ ?img\<rparr>)"
    and r: "\<forall>sock rest. clean sock \<and> delivered sock = [0, 0, 0, 3] @ ?img @ rest \<longrightarrow>
         (\<exists>sock'. recv_frame sock = (Some ?img, sock') \<and> clean sock' \<and> delivered sock' = rest)"
    by auto
  have "clean [Data [0, 0], Data [0, 3, 255], Data [216, 255, 7 :: byte]] \<and>
        delivered [Data [0, 0], Data [0, 3, 255], Data [216, 255, 7 :: byte]] = [0, 0, 0, 3] @ ?img @ [7]"
    by simp
  with r have "\<exists>sock'. recv_frame [Data [0, 0], Data [0, 3, 255], Data [216, 255, 7]] = (Some ?img, sock')
      \<and> clean sock' \<and> delivered sock' = [7]"
    by blast
  with s h show ?thesis by auto
qed

lemma recv_frame_empty_image:
  "recv_frame [Data [0, 0, 0, 0], Data [0, 0, 0, 1, 9]] = (None, [Data [0, 0, 0, 1, 9]])"
  by (simp add: recv_frame_def recv_all_def recv_all_loop.simps unpack_be32_def)

lemma send_frame_too_long:
  "2 ^ 32 \<le> length img_bytes \<Longrightarrow> send_frame c img_bytes = Inl StructError"
  by (simp add: send_frame_def pack_be32_def)

lemma send_frame_broken:
  "\<not> usable c \<Longrightarrow> length img_bytes < 2 ^ 32 \<Longrightarrow> send_frame c img_bytes = Inl OSError"
  by (simp add: send_frame_def pack_be32_def sendall_def)


section \<open>Proofs: the mode byte\<close>

lemma conn_sendall_wire:
  assumes "conn_sendall h data s = Inr s'"
  shows "wire (sockets s' h) = wire (sockets s h) @ data"
    and "\<And>k. k \<noteq> h \<Longrightarrow> sockets s' k = sockets s k"
  using assms
  by (auto simp: conn_sendall_def sendall_def emit_def py_then_def split: if_splits)

lemma stream_ffmpeg_loop_wire:
  "stream_ffmpeg_loop turns s = (ended, s') \<Longrightarrow>
     \<exists>payload. wire (sockets s' h) = wire (sockets s h) @ payload"
proof (induction turns arbitrary: s)
  case Nil
  then show ?case by simp
next
  case (Cons t ts)
  show ?case
  proof (cases "seen_running t \<and> \<not> seen_stop_stream t \<and> seen_conn t \<noteq> None \<and>
                \<not> exited_at_head t")
    case False
    with Cons.prems show ?thesis by (auto split: option.splits if_splits)
  next
    case True
    then obtain conn where conn: "seen_conn t = Some conn" by auto
    show ?thesis
    proof (cases "chunk t = []")
      case True
      with \<open>seen_running t \<and> \<not> seen_stop_stream t \<and> seen_conn t \<noteq> None \<and> \<not> exited_at_head t\<close>
        conn Cons.prems Cons.IH [of s]
      show ?thesis by (auto split: if_splits)
    next
      case False
      show ?thesis
      proof (cases "conn_sendall conn (chunk t) s")
        case (Inl e)
        with True conn False Cons.prems show ?thesis by (auto simp: emit_def)
      next
        case (Inr s1)
        with True conn False Cons.prems have "stream_ffmpeg_loop ts s1 = (ended, s')" by simp
        from Cons.IH [OF this] obtain payload where
          p: "wire (sockets s' h) = wire (sockets s1 h) @ payload" by blast
        from conn_sendall_wire [OF Inr] have "\<exists>q. wire (sockets s1 h) = wire (sockets s h) @ q"
          by (cases "h = conn") auto
        with p show ?thesis by auto
      qed
    qed
  qed
qed

lemma encode_mode_byte:
  "encode (mode_byte_of mode) = [if startswith mode ''FFmpeg'' then 70 else 76]"
  by (simp add: encode_def mode_byte_of_def)

lemma char_of_F: "char_of (70 :: nat) = CHR ''F''"
  by code_simp

lemma char_of_L: "char_of (76 :: nat) = CHR ''L''"
  by code_simp

lemma read_mode_first:
  assumes "clean sock" "delivered sock = encode (mode_byte_of mode) @ payload"
  shows "\<exists>sock'. read_mode sock = (Inr (mode_byte_of mode), sock') \<and> delivered sock' = payload"
proof -
  from assms obtain seg segs where sock: "sock = Data seg # segs" and seg: "seg \<noteq> []"
    by (cases sock rule: clean.cases) (auto simp: encode_mode_byte)
  then obtain b bs where b: "seg = b # bs" by (cases seg) auto
  with assms(2) sock have hd: "b = (if startswith mode ''FFmpeg'' then 70 else 76)"
    and rest: "bs @ delivered segs = payload"
    by (auto simp: encode_mode_byte)
  show ?thesis
    using hd rest by (auto simp: read_mode_def sock b mode_byte_of_def char_of_F char_of_L)
qed


lemma emit_fields [simp]:
  "sockets (emit e s) = sockets s" "client_conn (emit e s) = client_conn s"
  "media_thread (emit e s) = media_thread s" "media_process (emit e s) = media_process s"
  "encoder_mode (emit e s) = encoder_mode s" "audio_socket (emit e s) = audio_socket s"
  "next_ref (emit e s) = next_ref s" "threads (emit e s) = threads s"
  "processes (emit e s) = processes s" "trace (emit e s) = trace s @ [e]"
  "is_running (emit e s) = is_running s" "stop_stream_event (emit e s) = stop_stream_event s"
  "stop_heartbeat_event (emit e s) = stop_heartbeat_event s"
  "jpeg_quality (emit e s) = jpeg_quality s" "screen_capture_rate (emit e s) = screen_capture_rate s"
  "is_muted (emit e s) = is_muted s" "ffmpeg_encoder (emit e s) = ffmpeg_encoder s"
  "monitor_dims (emit e s) = monitor_dims s"
  by (simp_all add: emit_def)

lemma accept_audio_frame:
  "sockets (accept_audio a env s) = sockets s"
  "client_conn (accept_audio a env s) = client_conn s"
  "encoder_mode (accept_audio a env s) = encoder_mode s"
  "\<exists>more. trace (accept_audio a env s) = trace s @ more \<and> (\<forall>h d. Sent h d \<notin> set more)"
  by (auto simp: accept_audio_def start_thread_def Let_def split: option.splits)

lemma start_streams_frame:
  "\<exists>rest t.
     sockets (start_streams audio_conn env mode_byte s) = sockets s \<and>
     client_conn (start_streams audio_conn env mode_byte s) = client_conn s \<and>
     trace (start_streams audio_conn env mode_byte s) = trace s @ rest \<and>
     (\<forall>h d. Sent h d \<notin> set rest) \<and>
     media_thread (start_streams audio_conn env mode_byte s) = Some t \<and>
     Started t (if startswith (encoder_mode s) ''FFmpeg'' then Stream_ffmpeg else Stream_screen)
       \<in> set rest"
  by (auto simp: start_streams_def accept_audio_def start_thread_def Let_def split: option.splits)

lemma session_begin_usable:
  assumes "usable (sockets s conn)"
  shows "\<exists>s' rest t.
        session_begin conn audio_conn env s = (None, s') \<and>
        client_conn s' = Some conn \<and>
        wire (sockets s' conn) = wire (sockets s conn) @ encode (mode_byte_of (encoder_mode s)) \<and>
        trace s' = trace s @ Sent conn (encode (mode_byte_of (encoder_mode s))) # rest \<and>
        (\<forall>h d. Sent h d \<notin> set rest) \<and>
        media_thread s' = Some t \<and>
        Started t (if startswith (encoder_mode s) ''FFmpeg'' then Stream_ffmpeg else Stream_screen)
          \<in> set rest"
proof -
  let ?bytes = "encode (mode_byte_of (encoder_mode s))"
  define s2 where "s2 = emit (Sent conn ?bytes)
               (s\<lparr>client_conn := Some conn,
                  sockets := (sockets s)(conn := (sockets s conn)\<lparr>wire := wire (sockets s conn) @ ?bytes\<rparr>)\<rparr>)"
  have send: "conn_sendall conn ?bytes (s\<lparr>client_conn := Some conn\<rparr>) = Inr s2"
    using assms by (simp add: conn_sendall_def sendall_def s2_def)
  have s2: "sockets s2 conn = (sockets s conn)\<lparr>wire := wire (sockets s conn) @ ?bytes\<rparr>"
    "client_conn s2 = Some conn" "trace s2 = trace s @ [Sent conn ?bytes]"
    "encoder_mode s2 = encoder_mode s"
    by (simp_all add: s2_def)
  from start_streams_frame [of audio_conn env "mode_byte_of (encoder_mode s)" s2]
  obtain rest t where r: "sockets (start_streams audio_conn env (mode_byte_of (encoder_mode s)) s2) = sockets s2"
    "client_conn (start_streams audio_conn env (mode_byte_of (encoder_mode s)) s2) = client_conn s2"
    "trace (start_streams audio_conn env (mode_byte_of (encoder_mode s)) s2) = trace s2 @ rest"
    "\<forall>h d. Sent h d \<notin> set rest"
    "media_thread (start_streams audio_conn env (mode_byte_of (encoder_mode s)) s2) = Some t"
    "Started t (if startswith (encoder_mode s2) ''FFmpeg'' then Stream_ffmpeg else Stream_screen) \<in> set rest"
    by blast
  have "session_begin conn audio_conn env s
          = (None, start_streams audio_conn env (mode_byte_of (encoder_mode s)) s2)"
    using send by (simp add: session_begin_def Let_def)
  with r s2 show ?thesis by auto
qed


text \<open>
  C3. On an accepted video connection the host writes exactly one mode byte before
  anything else: \<open>F\<close> (70) when the encoder mode starts with \<^verbatim>\<open>FFmpeg\<close>, \<open>L\<close> (76)
  otherwise. When the accept path is done the connection has carried this one byte and
  nothing else; the write of it is the only write of the accept path and stands in the
  trace before the start of the media thread; whatever the streaming loop writes
  afterwards follows the byte; and the viewer, reading one byte, gets the mode and is left
  with the stream. If the write of the mode byte fails, nothing is written and no stream
  is started.
\<close>

theorem mode_byte_first:
  "(sockets s conn = \<lparr>wire = [], broken = False, shutdown_calls = 0, close_calls = 0\<rparr> \<longrightarrow>
      (\<exists>s' rest t.
         session_begin conn audio_conn env s = (None, s') \<and>
         client_conn s' = Some conn \<and>
         wire (sockets s' conn) = [if startswith (encoder_mode s) ''FFmpeg'' then 70 else 76] \<and>
         trace s' = trace s @
            Sent conn [if startswith (encoder_mode s) ''FFmpeg'' then 70 else 76] # rest \<and>
         (\<forall>h d. Sent h d \<notin> set rest) \<and>
         media_thread s' = Some t \<and>
         Started t (if startswith (encoder_mode s) ''FFmpeg'' then Stream_ffmpeg else Stream_screen)
           \<in> set rest \<and>
         (\<forall>turns ended s''. stream_ffmpeg_loop turns s' = (ended, s'') \<longrightarrow>
            (\<exists>payload. wire (sockets s'' conn) =
               (if startswith (encoder_mode s) ''FFmpeg'' then 70 else 76) # payload)) \<and>
         (\<forall>c' img_bytes. send_frame (sockets s' conn) img_bytes = Inr c' \<longrightarrow>
            (\<exists>payload. wire c' =
               (if startswith (encoder_mode s) ''FFmpeg'' then 70 else 76) # payload)) \<and>
         (\<forall>sock payload. clean sock \<and> delivered sock = wire (sockets s' conn) @ payload \<longrightarrow>
            (\<exists>sock'. read_mode sock =
                 (Inr (if startswith (encoder_mode s) ''FFmpeg'' then ''F'' else ''L''), sock') \<and>
               delivered sock' = payload))))
   \<and>
   (\<not> usable (sockets s conn) \<longrightarrow>
      session_begin conn audio_conn env s = (Some OSError, s\<lparr>client_conn := Some conn\<rparr>))"
proof (intro conjI impI)
  assume fresh: "sockets s conn = \<lparr>wire = [], broken = False, shutdown_calls = 0, close_calls = 0\<rparr>"
  then have u: "usable (sockets s conn)" by (simp add: usable_def)
  let ?b = "if startswith (encoder_mode s) ''FFmpeg'' then 70 else 76 :: byte"
  from session_begin_usable [OF u, of audio_conn env] fresh
  obtain s' rest t where sb: "session_begin conn audio_conn env s = (None, s')"
    and cc: "client_conn s' = Some conn"
    and w: "wire (sockets s' conn) = [?b]"
    and tr: "trace s' = trace s @ Sent conn [?b] # rest"
    and ns: "\<forall>h d. Sent h d \<notin> set rest"
    and mt: "media_thread s' = Some t"
    and st: "Started t (if startswith (encoder_mode s) ''FFmpeg'' then Stream_ffmpeg else Stream_screen)
          \<in> set rest"
    by (auto simp: encode_mode_byte)
  have loop: "\<exists>payload. wire (sockets s'' conn) = ?b # payload"
    if "stream_ffmpeg_loop turns s' = (ended, s'')" for turns ended s''
    using stream_ffmpeg_loop_wire [OF that, of conn] w by simp
  have frame: "\<exists>payload. wire c' = ?b # payload"
    if "send_frame (sockets s' conn) img_bytes = Inr c'" for c' img_bytes
    using that w
    by (auto simp: send_frame_def sendall_def py_then_def split: sum.splits if_splits)
  have viewer: "\<exists>sock'. read_mode sock =
                 (Inr (if startswith (encoder_mode s) ''FFmpeg'' then ''F'' else ''L''), sock') \<and>
               delivered sock' = payload"
    if "clean sock \<and> delivered sock = wire (sockets s' conn) @ payload" for sock payload
  proof -
    from that w have c: "clean sock"
      and d: "delivered sock = encode (mode_byte_of (encoder_mode s)) @ payload"
      by (simp_all add: encode_mode_byte)
    from read_mode_first [OF c d] show ?thesis by (simp add: mode_byte_of_def)
  qed
  from sb cc w tr ns mt st loop frame viewer
  show "\<exists>s' rest t.
         session_begin conn audio_conn env s = (None, s') \<and>
         client_conn s' = Some conn \<and>
         wire (sockets s' conn) = [if startswith (encoder_mode s) ''FFmpeg'' then 70 else 76] \<and>
         trace s' = trace s @
            Sent conn [if startswith (encoder_mode s) ''FFmpeg'' then 70 else 76] # rest \<and>
         (\<forall>h d. Sent h d \<notin> set rest) \<and>
         media_thread s' = Some t \<and>
         Started t (if startswith (encoder_mode s) ''FFmpeg'' then Stream_ffmpeg else Stream_screen)
           \<in> set rest \<and>
         (\<forall>turns ended s''. stream_ffmpeg_loop turns s' = (ended, s'') \<longrightarrow>
            (\<exists>payload. wire (sockets s'' conn) =
               (if startswith (encoder_mode s) ''FFmpeg'' then 70 else 76) # payload)) \<and>
         (\<forall>c' img_bytes. send_frame (sockets s' conn) img_bytes = Inr c' \<longrightarrow>
            (\<exists>payload. wire c' =
               (if startswith (encoder_mode s) ''FFmpeg'' then 70 else 76) # payload)) \<and>
         (\<forall>sock payload. clean sock \<and> delivered sock = wire (sockets s' conn) @ payload \<longrightarrow>
            (\<exists>sock'. read_mode sock =
                 (Inr (if startswith (encoder_mode s) ''FFmpeg'' then ''F'' else ''L''), sock') \<and>
               delivered sock' = payload))"
    by blast
next
  assume "\<not> usable (sockets s conn)"
  then show "session_begin conn audio_conn env s = (Some OSError, s\<lparr>client_conn := Some conn\<rparr>)"
    by (simp add: session_begin_def conn_sendall_def sendall_def Let_def)
qed


section \<open>Proofs: the range of the settings\<close>











theorem mode_byte_first_witness:
  "\<exists>s s'. init_server Map.empty No_mss = Inr s \<and>
     sockets s 7 = \<lparr>wire = [], broken = False, shutdown_calls = 0, close_calls = 0\<rparr> \<and>
     encoder_mode s = ''Legacy (Slow)'' \<and>
     session_begin 7 None \<lparr>ffmpeg_found = True, platform = Linux, display = '':0'', default_sink = None\<rparr> s
       = (None, s') \<and>
     wire (sockets s' 7) = [76] \<and>
     \<not> usable \<lparr>wire = [], broken = True, shutdown_calls = 0, close_calls = 0\<rparr>"
proof -
  let ?env = "\<lparr>ffmpeg_found = True, platform = Linux, display = '':0'', default_sink = None\<rparr>"
  obtain s where i: "init_server Map.empty No_mss = Inr s"
    by (simp add: init_server_def load_settings_def getint_def getboolean_def get_str_def Let_def)
  then have f: "sockets s 7 = \<lparr>wire = [], broken = False, shutdown_calls = 0, close_calls = 0\<rparr>"
    and e: "encoder_mode s = ''Legacy (Slow)''"
    by (auto simp: init_server_def load_settings_def getint_def getboolean_def get_str_def Let_def
        new_socket_def)
  from mode_byte_first [of s 7 None ?env] f e
  obtain s' where "session_begin 7 None ?env s = (None, s')" "wire (sockets s' 7) = [76]"
    by (auto simp: startswith_def)
  with i f e show ?thesis by (auto simp: usable_def)
qed


section \<open>Proofs: restarting the stream\<close>

lemma join_thread_frame [simp]:
  "sockets (join_thread b t s) = sockets s" "client_conn (join_thread b t s) = client_conn s"
  "processes (join_thread b t s) = processes s" "media_process (join_thread b t s) = media_process s"
  "trace (join_thread b t s) = trace s" "next_ref (join_thread b t s) = next_ref s"
  "encoder_mode (join_thread b t s) = encoder_mode s" "is_muted (join_thread b t s) = is_muted s"
  "screen_capture_rate (join_thread b t s) = screen_capture_rate s"
  "ffmpeg_encoder (join_thread b t s) = ffmpeg_encoder s"
  "jpeg_quality (join_thread b t s) = jpeg_quality s"
  "monitor_dims (join_thread b t s) = monitor_dims s"
  "is_running (join_thread b t s) = is_running s"
  by (simp_all add: join_thread_def split: option.splits)

lemma join_thread_threads:
  "threads (join_thread b (Some t) s) t = (threads s t)\<lparr>alive := alive (threads s t) \<and> \<not> b\<rparr>"
  "k \<noteq> t \<Longrightarrow> threads (join_thread b (Some t) s) k = threads s k"
  by (auto simp: join_thread_def)

lemma stop_process_frame [simp]:
  "sockets (stop_process b p s) = sockets s" "client_conn (stop_process b p s) = client_conn s"
  "threads (stop_process b p s) = threads s" "media_thread (stop_process b p s) = media_thread s"
  "trace (stop_process b p s) = trace s" "next_ref (stop_process b p s) = next_ref s"
  "encoder_mode (stop_process b p s) = encoder_mode s" "is_muted (stop_process b p s) = is_muted s"
  "screen_capture_rate (stop_process b p s) = screen_capture_rate s"
  "ffmpeg_encoder (stop_process b p s) = ffmpeg_encoder s"
  "jpeg_quality (stop_process b p s) = jpeg_quality s"
  "monitor_dims (stop_process b p s) = monitor_dims s"
  "is_running (stop_process b p s) = is_running s"
  "media_process (stop_process b p s) = media_process s"
  by (simp_all add: stop_process_def)

lemma stop_process_process:
  "exited (processes (stop_process b p s) p)"
  "terminate_calls (processes (stop_process b p s) p) = Suc (terminate_calls (processes s p))"
  "kill_calls (processes (stop_process b p s) p) =
     (if exited (processes s p) \<or> b then kill_calls (processes s p)
      else Suc (kill_calls (processes s p)))"
  "command (processes (stop_process b p s) p) = command (processes s p)"
  by (simp_all add: stop_process_def terminate_wait_kill_def Let_def)

lemma restart_ffmpeg_stream_state:
  assumes "is_running s" "startswith (encoder_mode s) ''FFmpeg''" "client_conn s = Some conn"
  shows "restart_ffmpeg_stream thread_ends process_exits s =
     (let s3 = join_thread thread_ends (media_thread s) (emit (Status False) s\<lparr>stop_stream_event := True\<rparr>);
          s4 = (case media_process s of
                  None \<Rightarrow> s3
                | Some p \<Rightarrow> (stop_process process_exits p s3)\<lparr>media_process := None\<rparr>)
      in emit (Status False)
           (emit (Started (next_ref s) Stream_ffmpeg)
              (s4\<lparr>media_thread := None, stop_stream_event := False,
                  threads := (threads s4)(next_ref s := \<lparr>target = Stream_ffmpeg, alive = True\<rparr>),
                  next_ref := Suc (next_ref s)\<rparr>)
            \<lparr>media_thread := Some (next_ref s)\<rparr>))"
  using assms
  by (simp add: restart_ffmpeg_stream_def Let_def start_thread_def split: option.splits)


lemma an_in_muted_command: "''-an'' \<in> set (ffmpeg_command env m rate encoder True)"
  by (simp add: ffmpeg_command_def audio_input_configured_def)

lemma stream_ffmpeg_launch_command:
  assumes "ffmpeg_found env"
  shows "\<exists>s'. stream_ffmpeg_launch env s = Some s' \<and>
     media_process s' = Some (next_ref s) \<and>
     command (processes s' (next_ref s)) =
       ffmpeg_command env (monitor_dims s) (screen_capture_rate s) (ffmpeg_encoder s) (is_muted s) \<and>
     \<not> exited (processes s' (next_ref s)) \<and>
     client_conn s' = client_conn s \<and> sockets s' = sockets s"
  using assms by (simp add: stream_ffmpeg_launch_def Let_def start_thread_def)

lemma restart_media_streams_frame:
  "client_conn (restart_media_streams thread_ends process_exits s) = client_conn s"
  "sockets (restart_media_streams thread_ends process_exits s) = sockets s"
  "client_conn s \<noteq> None \<Longrightarrow>
     \<exists>t. media_thread (restart_media_streams thread_ends process_exits s) = Some t \<and>
         threads (restart_media_streams thread_ends process_exits s) t
           = \<lparr>target = (if startswith (encoder_mode s) ''FFmpeg'' then Stream_ffmpeg else Stream_screen),
              alive = True\<rparr>"
  by (auto simp: restart_media_streams_def Let_def start_thread_def split: option.splits)

text \<open>
  C4. A restart of the stream inside a session, with a viewer connected in FFmpeg mode:
  \<^verbatim>\<open>restart_ffmpeg_stream\<close> (which \<^verbatim>\<open>toggle_mute\<close> runs) sets the stop event, joins the
  old media thread for a bounded time and goes on whether or not it ended, terminates the
  old process and kills it when it does not exit in time, and starts a new
  \<^verbatim>\<open>stream_ffmpeg\<close> thread, which launches the encoder with a command built from the
  settings as they are then (with \<^verbatim>\<open>-an\<close> after a mute). The restart writes nothing to
  any socket, calls neither \<^verbatim>\<open>shutdown\<close> nor \<^verbatim>\<open>close\<close>, and leaves \<^verbatim>\<open>client_conn\<close>
  referring to the same connection. The same holds for \<^verbatim>\<open>_restart_media_streams\<close>, the
  restart for a switch of the encoder mode, which picks the thread by the mode.
\<close>

theorem restart_keeps_video_socket:
  assumes "is_running s" "startswith (encoder_mode s) ''FFmpeg''" "client_conn s = Some conn"
    and "media_thread s \<noteq> Some (next_ref s)"
  shows
   "client_conn (restart_ffmpeg_stream thread_ends process_exits s) = Some conn \<and>
    sockets (restart_ffmpeg_stream thread_ends process_exits s) = sockets s \<and>
    trace (restart_ffmpeg_stream thread_ends process_exits s)
      = trace s @ [Status False, Started (next_ref s) Stream_ffmpeg, Status False] \<and>
    (\<forall>p. media_process s = Some p \<longrightarrow>
       exited (processes (restart_ffmpeg_stream thread_ends process_exits s) p) \<and>
       terminate_calls (processes (restart_ffmpeg_stream thread_ends process_exits s) p)
         = Suc (terminate_calls (processes s p)) \<and>
       kill_calls (processes (restart_ffmpeg_stream thread_ends process_exits s) p)
         = (if exited (processes s p) \<or> process_exits then kill_calls (processes s p)
            else Suc (kill_calls (processes s p)))) \<and>
    (\<forall>t. media_thread s = Some t \<longrightarrow>
       alive (threads (restart_ffmpeg_stream thread_ends process_exits s) t)
         = (alive (threads s t) \<and> \<not> thread_ends)) \<and>
    media_process (restart_ffmpeg_stream thread_ends process_exits s) = None \<and>
    media_thread (restart_ffmpeg_stream thread_ends process_exits s) = Some (next_ref s) \<and>
    threads (restart_ffmpeg_stream thread_ends process_exits s) (next_ref s)
      = \<lparr>target = Stream_ffmpeg, alive = True\<rparr> \<and>
    \<not> stop_stream_event (restart_ffmpeg_stream thread_ends process_exits s) \<and>
    (ffmpeg_found env \<longrightarrow>
       (\<exists>s' p. stream_ffmpeg_launch env (restart_ffmpeg_stream thread_ends process_exits s) = Some s' \<and>
          media_process s' = Some p \<and> \<not> exited (processes s' p) \<and>
          command (processes s' p)
            = ffmpeg_command env (monitor_dims s) (screen_capture_rate s) (ffmpeg_encoder s) (is_muted s) \<and>
          client_conn s' = Some conn \<and> sockets s' = sockets s)) \<and>
    toggle_mute checked thread_ends process_exits s
      = restart_ffmpeg_stream thread_ends process_exits (s\<lparr>is_muted := checked\<rparr>) \<and>
    client_conn (toggle_mute checked thread_ends process_exits s) = Some conn \<and>
    sockets (toggle_mute checked thread_ends process_exits s) = sockets s \<and>
    is_muted (toggle_mute checked thread_ends process_exits s) = checked \<and>
    client_conn (restart_media_streams thread_ends process_exits s) = Some conn \<and>
    sockets (restart_media_streams thread_ends process_exits s) = sockets s \<and>
    media_thread (restart_media_streams thread_ends process_exits s) = Some (next_ref s) \<and>
    threads (restart_media_streams thread_ends process_exits s) (next_ref s)
      = \<lparr>target = Stream_ffmpeg, alive = True\<rparr> \<and>
    (\<forall>p. media_process s = Some p \<longrightarrow>
       exited (processes (restart_media_streams thread_ends process_exits s) p))"
proof -
  let ?r = "restart_ffmpeg_stream thread_ends process_exits s"
  note st = restart_ffmpeg_stream_state [OF assms(1-3), of thread_ends process_exits]
  have cc: "client_conn ?r = Some conn" and so: "sockets ?r = sockets s"
    and tr: "trace ?r = trace s @ [Status False, Started (next_ref s) Stream_ffmpeg, Status False]"
    and mp: "media_process ?r = None" and mt: "media_thread ?r = Some (next_ref s)"
    and nt: "threads ?r (next_ref s) = \<lparr>target = Stream_ffmpeg, alive = True\<rparr>"
    and se: "\<not> stop_stream_event ?r"
    and keep: "monitor_dims ?r = monitor_dims s" "screen_capture_rate ?r = screen_capture_rate s"
      "ffmpeg_encoder ?r = ffmpeg_encoder s" "is_muted ?r = is_muted s"
    unfolding st using assms(3)
    by (simp_all add: Let_def split: option.splits)
  have pr: "exited (processes ?r p) \<and>
       terminate_calls (processes ?r p) = Suc (terminate_calls (processes s p)) \<and>
       kill_calls (processes ?r p) = (if exited (processes s p) \<or> process_exits then kill_calls (processes s p)
            else Suc (kill_calls (processes s p)))"
    if "media_process s = Some p" for p
    unfolding st using that by (simp add: Let_def stop_process_process)
  have th: "alive (threads ?r t) = (alive (threads s t) \<and> \<not> thread_ends)"
    if "media_thread s = Some t" for t
  proof -
    from that assms(4) have "t \<noteq> next_ref s" by auto
    then show ?thesis
      unfolding st using that
      by (simp add: Let_def join_thread_threads split: option.splits)
  qed
  have la: "\<exists>s' p. stream_ffmpeg_launch env ?r = Some s' \<and>
          media_process s' = Some p \<and> \<not> exited (processes s' p) \<and>
          command (processes s' p)
            = ffmpeg_command env (monitor_dims s) (screen_capture_rate s) (ffmpeg_encoder s) (is_muted s) \<and>
          client_conn s' = Some conn \<and> sockets s' = sockets s"
    if "ffmpeg_found env"
    using stream_ffmpeg_launch_command [OF that, of ?r] cc so keep by auto
  have tm: "toggle_mute checked thread_ends process_exits s
      = restart_ffmpeg_stream thread_ends process_exits (s\<lparr>is_muted := checked\<rparr>)"
    using assms(1-3) by (simp add: toggle_mute_def Let_def)
  have st': "is_running (s\<lparr>is_muted := checked\<rparr>)"
    "startswith (encoder_mode (s\<lparr>is_muted := checked\<rparr>)) ''FFmpeg''"
    "client_conn (s\<lparr>is_muted := checked\<rparr>) = Some conn"
    using assms(1-3) by simp_all
  have tmf: "client_conn (toggle_mute checked thread_ends process_exits s) = Some conn"
    "sockets (toggle_mute checked thread_ends process_exits s) = sockets s"
    "is_muted (toggle_mute checked thread_ends process_exits s) = checked"
    unfolding tm restart_ffmpeg_stream_state [OF st'] using assms(3)
    by (simp_all add: Let_def split: option.splits)
  have rm: "client_conn (restart_media_streams thread_ends process_exits s) = Some conn"
    "sockets (restart_media_streams thread_ends process_exits s) = sockets s"
    "media_thread (restart_media_streams thread_ends process_exits s) = Some (next_ref s)"
    "threads (restart_media_streams thread_ends process_exits s) (next_ref s)
      = \<lparr>target = Stream_ffmpeg, alive = True\<rparr>"
    using assms(2,3)
    by (simp_all add: restart_media_streams_def Let_def start_thread_def split: option.splits)
  have rp: "exited (processes (restart_media_streams thread_ends process_exits s) p)"
    if "media_process s = Some p" for p
    using that assms(2,3)
    by (simp add: restart_media_streams_def Let_def start_thread_def stop_process_process)
  from cc so tr pr th mp mt nt se la tm tmf rm rp show ?thesis by blast
qed


theorem restart_keeps_video_socket_witness:
  "\<exists>s0. init_server Map.empty No_mss = Inr s0 \<and>
     is_running (s0\<lparr>is_running := True, encoder_mode := ''FFmpeg x264 (CPU)'', client_conn := Some 5,
                   media_process := Some 2, media_thread := Some 3, next_ref := 4\<rparr>) \<and>
     startswith ''FFmpeg x264 (CPU)'' ''FFmpeg'' \<and>
     client_conn (restart_ffmpeg_stream False False
        (s0\<lparr>is_running := True, encoder_mode := ''FFmpeg x264 (CPU)'', client_conn := Some 5,
            media_process := Some 2, media_thread := Some 3, next_ref := 4\<rparr>)) = Some 5 \<and>
     sockets (restart_ffmpeg_stream False False
        (s0\<lparr>is_running := True, encoder_mode := ''FFmpeg x264 (CPU)'', client_conn := Some 5,
            media_process := Some 2, media_thread := Some 3, next_ref := 4\<rparr>)) 5 = new_socket \<and>
     kill_calls (processes (restart_ffmpeg_stream False False
        (s0\<lparr>is_running := True, encoder_mode := ''FFmpeg x264 (CPU)'', client_conn := Some 5,
            media_process := Some 2, media_thread := Some 3, next_ref := 4\<rparr>)) 2) = 1 \<and>
     media_thread (restart_ffmpeg_stream False False
        (s0\<lparr>is_running := True, encoder_mode := ''FFmpeg x264 (CPU)'', client_conn := Some 5,
            media_process := Some 2, media_thread := Some 3, next_ref := 4\<rparr>)) = Some 4 \<and>
     is_muted (toggle_mute True False False
        (s0\<lparr>is_running := True, encoder_mode := ''FFmpeg x264 (CPU)'', client_conn := Some 5,
            media_process := Some 2, media_thread := Some 3, next_ref := 4\<rparr>))"
proof -
  obtain s0 where i: "init_server Map.empty No_mss = Inr s0"
    by (simp add: init_server_def load_settings_def getint_def getboolean_def get_str_def Let_def)
  then have f: "sockets s0 5 = new_socket" "kill_calls (processes s0 2) = 0"
    "\<not> exited (processes s0 2)"
    by (auto simp: init_server_def load_settings_def getint_def getboolean_def get_str_def Let_def)
  let ?s = "s0\<lparr>is_running := True, encoder_mode := ''FFmpeg x264 (CPU)'', client_conn := Some 5,
            media_process := Some 2, media_thread := Some 3, next_ref := 4\<rparr>"
  have h: "is_running ?s" "startswith (encoder_mode ?s) ''FFmpeg''" "client_conn ?s = Some 5"
    "media_thread ?s \<noteq> Some (next_ref ?s)"
    by (simp_all add: startswith_def)
  note c4 = restart_keeps_video_socket [OF h, of False False
      "\<lparr>ffmpeg_found = True, platform = Linux, display = '':0'', default_sink = None\<rparr>" True]
  have "client_conn (restart_ffmpeg_stream False False ?s) = Some 5"
    "sockets (restart_ffmpeg_stream False False ?s) 5 = new_socket"
    "kill_calls (processes (restart_ffmpeg_stream False False ?s) 2) = 1"
    "media_thread (restart_ffmpeg_stream False False ?s) = Some 4"
    using c4 f by simp_all
  moreover from c4 have "is_muted (toggle_mute True False False ?s) = True"
    by blast
  ultimately show ?thesis using i h by (simp add: startswith_def)
qed


section \<open>Proofs: teardown\<close>

lemma close_socket_frame [simp]:
  "is_running (close_socket h s) = is_running s"
  "server_socket (close_socket h s) = server_socket s"
  "client_conn (close_socket h s) = client_conn s"
  "audio_socket (close_socket h s) = audio_socket s"
  "audio_client_conn (close_socket h s) = audio_client_conn s"
  "control_socket_listener (close_socket h s) = control_socket_listener s"
  "control_client_conn (close_socket h s) = control_client_conn s"
  "media_process (close_socket h s) = media_process s"
  "processes (close_socket h s) = processes s"
  by (simp_all add: close_socket_def split: option.splits)

lemma save_settings_frame [simp]:
  "is_running (save_settings d s) = is_running s"
  "server_socket (save_settings d s) = server_socket s"
  "client_conn (save_settings d s) = client_conn s"
  "audio_socket (save_settings d s) = audio_socket s"
  "audio_client_conn (save_settings d s) = audio_client_conn s"
  "control_socket_listener (save_settings d s) = control_socket_listener s"
  "control_client_conn (save_settings d s) = control_client_conn s"
  "media_process (save_settings d s) = media_process s"
  "sockets (save_settings d s) = sockets s"
  "processes (save_settings d s) = processes s"
  by (simp_all add: save_settings_def Let_def emit_def)

lemma emit_handles [simp]:
  "server_socket (emit e s) = server_socket s"
  "audio_client_conn (emit e s) = audio_client_conn s"
  "control_socket_listener (emit e s) = control_socket_listener s"
  "control_client_conn (emit e s) = control_client_conn s"
  by (simp_all add: emit_def)

lemma stop_process_handles [simp]:
  "server_socket (stop_process b p s) = server_socket s"
  "audio_socket (stop_process b p s) = audio_socket s"
  "audio_client_conn (stop_process b p s) = audio_client_conn s"
  "control_socket_listener (stop_process b p s) = control_socket_listener s"
  "control_client_conn (stop_process b p s) = control_client_conn s"
  by (simp_all add: stop_process_def)



















section \<open>Proofs: how the streaming loops end\<close>

lemma ffmpeg_send_failure_sets_heartbeat:
  assumes "\<not> usable (sockets s conn)" "c \<noteq> []"
  shows "stream_ffmpeg_loop
           (\<lparr>seen_running = True, seen_stop_stream = False, seen_conn = Some conn,
             exited_at_head = False, chunk = c, exited_after_read = b\<rparr> # turns) s
         = (True, (emit (Status False) s)\<lparr>stop_heartbeat_event := True\<rparr>)"
  using assms by (simp add: conn_sendall_def sendall_def)

lemma x11_grab_failure_sets_heartbeat:
  "stream_screen_x11_loop
     (\<lparr>x_running = True, x_stop_stream = False, grab_fails = True, jpeg = j\<rparr> # turns) s
   = (True, (emit (Status False) s)\<lparr>stop_heartbeat_event := True\<rparr>)"
  by (simp add: frame_settings_def)

lemma x11_send_failure_sets_heartbeat:
  assumes "client_conn s = Some conn" "\<not> usable (sockets s conn)"
    "j (jpeg_quality s) = Some img_bytes" "length img_bytes < 2 ^ 32"
  shows "stream_screen_x11_loop
     (\<lparr>x_running = True, x_stop_stream = False, grab_fails = False, jpeg = j\<rparr> # turns) s
   = (True, (emit (Status False) s)\<lparr>stop_heartbeat_event := True\<rparr>)"
  using assms by (simp add: frame_settings_def pack_be32_def conn_sendall_def sendall_def)

text \<open>
  C6, on the code. When the encoder process has exited (\<^verbatim>\<open>poll()\<close> is not \<^verbatim>\<open>None\<close> at the
  head of a turn of the loop of \<^verbatim>\<open>stream_ffmpeg\<close>, or after an empty read), the loop ends
  and leaves the host object as it was: \<^verbatim>\<open>_stop_heartbeat_event\<close> is not set, and the
  \<^verbatim>\<open>finally\<close> block does not set it either. Only the failure of a write sets it
  (\<open>ffmpeg_send_failure_sets_heartbeat\<close>), as do a failed grab and a failed write in
  the legacy loop.
\<close>

theorem encoder_exit_leaves_heartbeat:
  "stream_ffmpeg_loop
     (\<lparr>seen_running = True, seen_stop_stream = False, seen_conn = Some conn,
       exited_at_head = True, chunk = c, exited_after_read = b\<rparr> # turns) s = (True, s)
   \<and>
   stream_ffmpeg_loop
     (\<lparr>seen_running = True, seen_stop_stream = False, seen_conn = Some conn,
       exited_at_head = False, chunk = [], exited_after_read = True\<rparr> # turns) s = (True, s)
   \<and>
   stop_heartbeat_event (stream_ffmpeg_finally s) = stop_heartbeat_event s
   \<and>
   (case init_server Map.empty No_mss of
      Inl e \<Rightarrow> False
    | Inr s0 \<Rightarrow>
        fst (stream_ffmpeg
               \<lparr>ffmpeg_found = True, platform = Linux, display = '':0'', default_sink = None\<rparr>
               [\<lparr>seen_running = True, seen_stop_stream = False, seen_conn = Some 5,
                 exited_at_head = True, chunk = [], exited_after_read = True\<rparr>]
               (s0\<lparr>is_running := True, client_conn := Some 5,
                   encoder_mode := ''FFmpeg x264 (CPU)''\<rparr>))
        \<and>
        \<not> stop_heartbeat_event (snd (stream_ffmpeg
               \<lparr>ffmpeg_found = True, platform = Linux, display = '':0'', default_sink = None\<rparr>
               [\<lparr>seen_running = True, seen_stop_stream = False, seen_conn = Some 5,
                 exited_at_head = True, chunk = [], exited_after_read = True\<rparr>]
               (s0\<lparr>is_running := True, client_conn := Some 5,
                   encoder_mode := ''FFmpeg x264 (CPU)''\<rparr>))))"
  by (simp add: stream_ffmpeg_finally_def stream_ffmpeg_def stream_ffmpeg_launch_def
      start_thread_def Let_def emit_def init_server_def load_settings_def getint_def
      getboolean_def get_str_def split: option.splits)


section \<open>Proofs: the control channel\<close>
















end
